theory Spec2Isabelle
  imports Main "HOL-Library.Word" "HOL-Library.Multiset"
begin

section \<open>The admin-revoker of cmd/admin-revoker/main.go\<close>

text \<open>
  The tool talks to four collaborators: the certificate store (a database transaction),
  the registration authority (RA), the storage authority (SA) and the logger/statistics.
  None of them is part of the program, so each call is an oracle of an environment
  record, and every call the program makes is appended to a trace of events, oldest
  first. The trace is the only state the functions thread through.
\<close>

subsection \<open>Data\<close>

text \<open>\<^verbatim>\<open>revocation.Reason\<close> is a Go integer type; the program only compares it with
  constants, so it is an unbounded integer here (every 64-bit value is one).\<close>

type_synonym Reason = int

text \<open>Go \<^verbatim>\<open>error\<close> values. \<^verbatim>\<open>sql.ErrNoRows\<close> is the one the program compares with;
  \<^verbatim>\<open>berrors.NotFoundError("certificate with serial %q not found", serial)\<close> is the one
  it builds (kept with its argument, the serial); every other error comes from a
  collaborator and is opaque.\<close>

datatype error =
    ErrNoRows
  | NotFoundError string
  | OtherError string

text \<open>\<^verbatim>\<open>core.Certificate\<close>, with the two fields the program reads.\<close>

record core_Certificate =
  Serial :: string
  DER :: "8 word list"

text \<open>\<^verbatim>\<open>x509.Certificate\<close> (standard library): the program never looks inside, it
  hands the value to the RA. Two of its fields stand for it.\<close>

record x509_Certificate =
  SerialNumber :: int
  Raw :: "8 word list"

text \<open>\<^verbatim>\<open>user.User\<close> (standard library), with the field the program reads.\<close>

record os_User =
  Username :: string

text \<open>\<^verbatim>\<open>core.AcmeIdentifier\<close>.\<close>

datatype IdentifierType = IdentifierDNS

record AcmeIdentifier =
  Type :: IdentifierType
  Value :: string

text \<open>What a Go \<^verbatim>\<open>panic\<close> carries: the message of line 114, or the runtime's nil
  pointer dereference.\<close>

datatype panic_value =
    PanicMessage string
  | NilPointerDereference

text \<open>A Go function either returns or panics.\<close>

datatype 'a outcome =
    Returned 'a
  | Panicked panic_value

text \<open>The calls the program makes on its collaborators, in the order it makes them.
  The RA's revoke call is recorded with its arguments and its result.\<close>

datatype event =
    TxBegin
  | TxCommit
  | TxRollback
  | DbSelectCertificate string
  | DbSelectByRegistration int
  | RaRevoke x509_Certificate Reason string "error option"
  | SaGetRegistration int
  | SaRevokeAuthorizationsByDomain AcmeIdentifier
  | LogInfo string
  | StatsInc string int
  | Stdout string
  | DeferredAuditPanic "panic_value option"

type_synonym trace = "event list"

text \<open>The environment: what each collaborator answers.
  \<^item> \<open>ReasonToString\<close> is the table \<^verbatim>\<open>revocation.ReasonToString\<close> (package revocation, not
    part of the sources at hand), a Go map: an association list with distinct keys, whose
    order is the order in which \<^verbatim>\<open>range\<close> happens to yield the keys.
  \<^item> \<open>sa_SelectCertificate\<close> is \<^verbatim>\<open>sa.SelectCertificate(tx, "WHERE serial = ?", serial)\<close>.
  \<^item> \<open>tx_Select\<close> is the query of line 141, by registration id.
  \<^item> \<open>x509_ParseCertificate\<close> is \<^verbatim>\<open>x509.ParseCertificate\<close>.
  \<^item> \<open>user_Current\<close> is \<^verbatim>\<open>user.Current()\<close>: a pointer that may be nil, and an error.
  \<^item> \<open>rac_AdministrativelyRevokeCertificate\<close> is the RA's answer; it may depend on
    everything that happened before (the RA has state: what it revoked already).
  \<^item> \<open>sac_GetRegistration\<close>, \<open>sac_RevokeAuthorizationsByDomain\<close> are the SA's answers.
  \<^item> \<open>dbMap_Begin\<close>, \<open>tx_Commit\<close>, \<open>tx_Rollback\<close> are the store's answers to the
    transaction calls.
  \<^item> \<open>strconv_Atoi\<close>, \<open>strconv_ParseInt\<close> parse the command line's numbers.
  \<^item> \<open>setupContext\<close> is what stops \<^verbatim>\<open>setupContext\<close> (lines 70 to 110), when something does:
    the message and the error it hands to \<^verbatim>\<open>cmd.FailOnError\<close>.\<close>

record env =
  ReasonToString :: "(Reason \<times> string) list"
  sa_SelectCertificate :: "string \<Rightarrow> error + core_Certificate"
  tx_Select :: "int \<Rightarrow> error + core_Certificate list"
  x509_ParseCertificate :: "8 word list \<Rightarrow> error + x509_Certificate"
  user_Current :: "os_User option \<times> error option"
  rac_AdministrativelyRevokeCertificate ::
    "trace \<Rightarrow> x509_Certificate \<Rightarrow> Reason \<Rightarrow> string \<Rightarrow> error option"
  sac_GetRegistration :: "int \<Rightarrow> error option"
  sac_RevokeAuthorizationsByDomain :: "AcmeIdentifier \<Rightarrow> int \<times> int \<times> error option"
  dbMap_Begin :: "error option"
  tx_Commit :: "error option"
  tx_Rollback :: "error option"
  strconv_Atoi :: "string \<Rightarrow> error + int"
  strconv_ParseInt :: "string \<Rightarrow> error + int"
  setupContext :: "(string \<times> error) option"

subsection \<open>Formatting\<close>

text \<open>The verb \<^verbatim>\<open>%d\<close> of \<^verbatim>\<open>fmt\<close>: an integer in decimal, with a minus sign when negative.\<close>

fun show_nat :: "nat \<Rightarrow> string" where
  "show_nat n =
     (if n < 10 then [char_of (48 + n)]
      else show_nat (n div 10) @ [char_of (48 + n mod 10)])"

declare show_nat.simps [simp del]

definition show_int :: "int \<Rightarrow> string" where
  "show_int i = (if i < 0 then CHR ''-'' # show_nat (nat (- i)) else show_nat (nat i))"

text \<open>Reading a Go map at a key it does not hold gives the zero value, the empty string.\<close>

definition map_index :: "(Reason \<times> string) list \<Rightarrow> Reason \<Rightarrow> string" where
  "map_index m k = (case map_of m k of None \<Rightarrow> [] | Some s \<Rightarrow> s)"

subsection \<open>revokeBySerial (lines 112 to 137)\<close>

definition revoked_message :: "string \<Rightarrow> string \<Rightarrow> string" where
  "revoked_message serial label =
     ''Revoked certificate '' @ serial @ '' with reason '' @ [CHR 0x27] @ label @ [CHR 0x27]"

definition revokeBySerial ::
  "env \<Rightarrow> string \<Rightarrow> Reason \<Rightarrow> trace \<Rightarrow> error option outcome \<times> trace" where
  "revokeBySerial e serial reasonCode t =
     (if reasonCode < 0 \<or> reasonCode = 7 \<or> reasonCode > 10 then
        (Panicked (PanicMessage (''Invalid reason code: '' @ show_int reasonCode)), t)
      else
        let t1 = t @ [DbSelectCertificate serial] in
        case sa_SelectCertificate e serial of
          Inl err \<Rightarrow>
            if err = ErrNoRows then (Returned (Some (NotFoundError serial)), t1)
            else (Returned (Some err), t1)
        | Inr certObj \<Rightarrow>
            (case x509_ParseCertificate e (DER certObj) of
               Inl err \<Rightarrow> (Returned (Some err), t1)
             | Inr cert \<Rightarrow>
                 (case fst (user_Current e) of
                    None \<Rightarrow> (Panicked NilPointerDereference, t1)
                  | Some u \<Rightarrow>
                      let err = rac_AdministrativelyRevokeCertificate e t1 cert reasonCode
                                  (Username u);
                          t2 = t1 @ [RaRevoke cert reasonCode (Username u) err]
                      in (case err of
                            Some x \<Rightarrow> (Returned (Some x), t2)
                          | None \<Rightarrow>
                              (Returned None,
                               t2 @ [LogInfo (revoked_message serial
                                       (map_index (ReasonToString e) reasonCode))])))))"

subsection \<open>revokeByReg (lines 139 to 154)\<close>

text \<open>The loop of lines 146 to 151: it leaves at the first call that does not return nil.\<close>

fun revokeByReg_loop ::
  "env \<Rightarrow> Reason \<Rightarrow> core_Certificate list \<Rightarrow> trace \<Rightarrow> error option outcome \<times> trace" where
  "revokeByReg_loop e reasonCode [] t = (Returned None, t)"
| "revokeByReg_loop e reasonCode (cert # certs) t =
     (case revokeBySerial e (Serial cert) reasonCode t of
        (Returned None, t') \<Rightarrow> revokeByReg_loop e reasonCode certs t'
      | (Returned (Some err), t') \<Rightarrow> (Returned (Some err), t')
      | (Panicked p, t') \<Rightarrow> (Panicked p, t'))"

definition revokeByReg ::
  "env \<Rightarrow> int \<Rightarrow> Reason \<Rightarrow> trace \<Rightarrow> error option outcome \<times> trace" where
  "revokeByReg e regID reasonCode t =
     (let t1 = t @ [DbSelectByRegistration regID] in
      case tx_Select e regID of
        Inl err \<Rightarrow> (Returned (Some err), t1)
      | Inr certs \<Rightarrow> revokeByReg_loop e reasonCode certs t1)"

subsection \<open>The helpers of packages sa and cmd\<close>

text \<open>What \<^verbatim>\<open>main\<close> comes to: it returns, or \<^verbatim>\<open>cmd.FailOnError\<close> or \<^verbatim>\<open>usage\<close> stops the
  process, or a panic leaves it.\<close>

datatype exit =
    Exit0
  | Failed string error
  | Usage
  | LeftByPanic panic_value

text \<open>Modelled from the spec: \<^verbatim>\<open>sa.Rollback(tx, err)\<close> (package sa, not part of the sources
  at hand). The spec has the caller "abort (roll back) the local transaction" and the
  process end with a nonzero status: the rollback is issued and an error is handed on,
  the store's own when the rollback itself fails (a StoreFailure), the given one
  otherwise.\<close>

definition sa_Rollback :: "env \<Rightarrow> error \<Rightarrow> trace \<Rightarrow> error \<times> trace" where
  "sa_Rollback e err t =
     (case tx_Rollback e of None \<Rightarrow> err | Some rollbackErr \<Rightarrow> rollbackErr, t @ [TxRollback])"

text \<open>Modelled from the spec: \<^verbatim>\<open>cmd.FailOnError(err, msg)\<close> (package cmd, not part of the
  sources at hand) "terminates the process with a nonzero status and a human-readable
  message" when the error is not nil, and does nothing otherwise: \<open>t\<close> is the trace so
  far, \<open>rest\<close> what \<^verbatim>\<open>main\<close> goes on to do when the error is nil.\<close>

definition FailOnError ::
  "error option \<Rightarrow> string \<Rightarrow> trace \<Rightarrow> exit \<times> trace \<Rightarrow> exit \<times> trace" where
  "FailOnError err msg t rest = (case err of Some x \<Rightarrow> (Failed msg x, t) | None \<Rightarrow> rest)"

subsection \<open>main, from the switch of line 188\<close>

text \<open>Lines 207 and 208, and 235 and 236: the commit that ends both revoking commands.\<close>

definition commit :: "env \<Rightarrow> trace \<Rightarrow> exit \<times> trace" where
  "commit e t =
     (let t1 = t @ [TxCommit] in
      FailOnError (tx_Commit e) (''Couldn'' @ [CHR 0x27] @ ''t cleanly close transaction'') t1
        (Exit0, t1))"

text \<open>Lines 202 to 208: the call of \<open>revokeBySerial\<close> and what the caller does with its
  result. A panic is not caught here.\<close>

definition revokeBySerial_caller :: "env \<Rightarrow> string \<Rightarrow> Reason \<Rightarrow> trace \<Rightarrow> exit \<times> trace" where
  "revokeBySerial_caller e serial reasonCode t =
     (case revokeBySerial e serial reasonCode t of
        (Panicked p, t') \<Rightarrow> (LeftByPanic p, t')
      | (Returned (Some err), t') \<Rightarrow>
          (let (err', t'') = sa_Rollback e err t'
           in (Failed (''Couldn'' @ [CHR 0x27] @ ''t revoke certificate'') err', t''))
      | (Returned None, t') \<Rightarrow> commit e t')"

text \<open>Lines 230 to 236: the call of \<open>revokeByReg\<close> and what the caller does with its
  result.\<close>

definition revokeByReg_caller :: "env \<Rightarrow> int \<Rightarrow> Reason \<Rightarrow> trace \<Rightarrow> exit \<times> trace" where
  "revokeByReg_caller e regID reasonCode t =
     (case revokeByReg e regID reasonCode t of
        (Panicked p, t') \<Rightarrow> (LeftByPanic p, t')
      | (Returned (Some err), t') \<Rightarrow>
          (let (err', t'') = sa_Rollback e err t'
           in (Failed (''Couldn'' @ [CHR 0x27] @ ''t revoke certificate'') err', t''))
      | (Returned None, t') \<Rightarrow> commit e t')"

text \<open>Lines 197 to 200 and 220 to 223: the transaction is begun; a failure goes through
  \<open>sa_Rollback\<close> to \<open>FailOnError\<close>.\<close>

definition begin_tx :: "env \<Rightarrow> trace \<Rightarrow> (trace \<Rightarrow> exit \<times> trace) \<Rightarrow> exit \<times> trace" where
  "begin_tx e t rest =
     (let t1 = t @ [TxBegin] in
      case dbMap_Begin e of
        Some err \<Rightarrow>
          (let (err', t2) = sa_Rollback e err t1
           in (Failed (''Couldn'' @ [CHR 0x27] @ ''t begin transaction'') err', t2))
      | None \<Rightarrow> rest t1)"

text \<open>The case \<^verbatim>\<open>serial-revoke\<close>, lines 189 to 208.\<close>

definition serial_revoke :: "env \<Rightarrow> string list \<Rightarrow> trace \<Rightarrow> exit \<times> trace" where
  "serial_revoke e args t =
     (let serial = args ! 0 in
      case strconv_Atoi e (args ! 1) of
        Inl err \<Rightarrow> (Failed ''Reason code argument must be an integer'' err, t)
      | Inr reasonCode \<Rightarrow>
          (case setupContext e of
             Some (msg, err) \<Rightarrow> (Failed msg err, t)
           | None \<Rightarrow> begin_tx e t (revokeBySerial_caller e serial reasonCode)))"

text \<open>\<^verbatim>\<open>defer logger.AuditPanic()\<close> (line 218): the deferred call runs when \<^verbatim>\<open>main\<close> returns or
  is left by a panic, not when the process is stopped by \<^verbatim>\<open>os.Exit\<close>. What it does with
  the panic is the logger's business (package log).\<close>

definition deferred_AuditPanic :: "exit \<times> trace \<Rightarrow> exit \<times> trace" where
  "deferred_AuditPanic r =
     (case fst r of
        Exit0 \<Rightarrow> (Exit0, snd r @ [DeferredAuditPanic None])
      | LeftByPanic p \<Rightarrow> (LeftByPanic p, snd r @ [DeferredAuditPanic (Some p)])
      | _ \<Rightarrow> r)"

text \<open>The case \<^verbatim>\<open>reg-revoke\<close>, lines 210 to 236.\<close>

definition reg_revoke :: "env \<Rightarrow> string list \<Rightarrow> trace \<Rightarrow> exit \<times> trace" where
  "reg_revoke e args t =
     (case strconv_ParseInt e (args ! 0) of
        Inl err \<Rightarrow> (Failed ''Registration ID argument must be an integer'' err, t)
      | Inr regID \<Rightarrow>
          (case strconv_Atoi e (args ! 1) of
             Inl err \<Rightarrow> (Failed ''Reason code argument must be an integer'' err, t)
           | Inr reasonCode \<Rightarrow>
               (case setupContext e of
                  Some (msg, err) \<Rightarrow> (Failed msg err, t)
                | None \<Rightarrow>
                    deferred_AuditPanic
                      (begin_tx e t (\<lambda>t1.
                         let t2 = t1 @ [SaGetRegistration regID] in
                         FailOnError (sac_GetRegistration e regID)
                           (''Couldn'' @ [CHR 0x27] @ ''t fetch registration'') t2
                           (revokeByReg_caller e regID reasonCode t2))))))"

text \<open>The case \<^verbatim>\<open>list-reasons\<close>, lines 238 to 247. \<^verbatim>\<open>Less\<close> is line 160 on the values of
  the slice. \<^verbatim>\<open>sort.Sort\<close> (standard library) puts the slice in ascending order by
  \<^verbatim>\<open>Less\<close>; an insertion sort stands for it (\<open>sort_Sort_unique\<close> below: over integers
  every sorting procedure gives the same list).\<close>

definition Less :: "Reason \<Rightarrow> Reason \<Rightarrow> bool" where
  "Less a b = (a < b)"

fun sort_insert :: "Reason \<Rightarrow> Reason list \<Rightarrow> Reason list" where
  "sort_insert x [] = [x]"
| "sort_insert x (y # ys) = (if Less x y then x # y # ys else y # sort_insert x ys)"

fun sort_Sort :: "Reason list \<Rightarrow> Reason list" where
  "sort_Sort [] = []"
| "sort_Sort (x # xs) = sort_insert x (sort_Sort xs)"

text \<open>The slice \<^verbatim>\<open>codes\<close> after line 243, and the pairs lines 245 to 247 print.\<close>

definition list_reasons_codes :: "(Reason \<times> string) list \<Rightarrow> Reason list" where
  "list_reasons_codes m = sort_Sort (map fst m)"

definition list_reasons_entries :: "(Reason \<times> string) list \<Rightarrow> (Reason \<times> string) list" where
  "list_reasons_entries m = map (\<lambda>k. (k, map_index m k)) (list_reasons_codes m)"

definition list_reasons_header :: string where
  "list_reasons_header =
     ''Revocation reason codes'' @ [CHR 0x0A] @ ''-----------------------'' @ [CHR 0x0A, CHR 0x0A]"

definition list_reasons_line :: "Reason \<times> string \<Rightarrow> string" where
  "list_reasons_line kl = show_int (fst kl) @ '': '' @ snd kl @ [CHR 0x0A]"

definition list_reasons :: "env \<Rightarrow> trace \<Rightarrow> exit \<times> trace" where
  "list_reasons e t =
     (Exit0,
      t @ [Stdout list_reasons_header]
        @ map (\<lambda>kl. Stdout (list_reasons_line kl)) (list_reasons_entries (ReasonToString e)))"

text \<open>The case \<^verbatim>\<open>auth-revoke\<close>, lines 249 to 261.\<close>

definition auth_revoke_message :: "int \<Rightarrow> int \<Rightarrow> string" where
  "auth_revoke_message pendingAuthsRevoked authsRevoked =
     ''Revoked '' @ show_int pendingAuthsRevoked @ '' pending authorizations and ''
       @ show_int authsRevoked @ '' final authorizations'' @ [CHR 0x0A]"

definition auth_revoke :: "env \<Rightarrow> string list \<Rightarrow> trace \<Rightarrow> exit \<times> trace" where
  "auth_revoke e args t =
     (let domain = args ! 0 in
      case setupContext e of
        Some (msg, err) \<Rightarrow> (Failed msg err, t)
      | None \<Rightarrow>
          (let ident = \<lparr>Type = IdentifierDNS, Value = domain\<rparr>;
               t1 = t @ [SaRevokeAuthorizationsByDomain ident]
           in case sac_RevokeAuthorizationsByDomain e ident of
                (authsRevoked, pendingAuthsRevoked, err) \<Rightarrow>
                  FailOnError err (''Failed to revoke authorizations for '' @ Value ident) t1
                    (Exit0,
                     t1 @ [LogInfo (auth_revoke_message pendingAuthsRevoked authsRevoked),
                           StatsInc ''RevokedAuthorizations'' authsRevoked,
                           StatsInc ''RevokedPendingAuthorizations'' pendingAuthsRevoked])))"

text \<open>The switch of lines 188 to 265, on the command and the arguments left after the
  flags.\<close>

definition main_switch :: "env \<Rightarrow> string \<Rightarrow> string list \<Rightarrow> trace \<Rightarrow> exit \<times> trace" where
  "main_switch e command args t =
     (if command = ''serial-revoke'' \<and> length args = 2 then serial_revoke e args t
      else if command = ''reg-revoke'' \<and> length args = 2 then reg_revoke e args t
      else if command = ''list-reasons'' then list_reasons e t
      else if command = ''auth-revoke'' \<and> length args = 1 then auth_revoke e args t
      else (Usage, t))"

subsection \<open>What the spec says of the collaborators\<close>

text \<open>Modelled from the spec: the keys of \<^verbatim>\<open>revocation.ReasonToString\<close> (package
  revocation, not part of the sources at hand). The spec's data model has "a fixed
  enumerated set \<open>{0,1,2,3,4,5,6,8,9,10}\<close>", each code with a label; a Go map holds a key
  once.\<close>

definition registry_keys :: "Reason list" where
  "registry_keys = [0, 1, 2, 3, 4, 5, 6, 8, 9, 10]"

definition registry :: "(Reason \<times> string) list \<Rightarrow> bool" where
  "registry m \<longleftrightarrow> distinct (map fst m) \<and> set (map fst m) = set registry_keys"

text \<open>The successful revocations the RA has been asked for, read off a trace: what the
  RA holds as revoked.\<close>

fun remote_revocations :: "trace \<Rightarrow> (x509_Certificate \<times> Reason \<times> string) list" where
  "remote_revocations [] = []"
| "remote_revocations (RaRevoke cert reasonCode admin None # t) =
     (cert, reasonCode, admin) # remote_revocations t"
| "remote_revocations (_ # t) = remote_revocations t"

text \<open>The condition of line 113: the reason codes the program refuses.\<close>

definition invalid_reason :: "Reason \<Rightarrow> bool" where
  "invalid_reason r \<longleftrightarrow> r < 0 \<or> r = 7 \<or> r > 10"

text \<open>The number of revoke calls made on the RA, whatever their result.\<close>

fun is_RaRevoke :: "event \<Rightarrow> bool" where
  "is_RaRevoke (RaRevoke _ _ _ _) = True"
| "is_RaRevoke _ = False"

definition remote_calls :: "trace \<Rightarrow> nat" where
  "remote_calls t = length (filter is_RaRevoke t)"

text \<open>The calls on either authority, RA or SA.\<close>

fun is_remote :: "event \<Rightarrow> bool" where
  "is_remote (RaRevoke _ _ _ _) = True"
| "is_remote (SaGetRegistration _) = True"
| "is_remote (SaRevokeAuthorizationsByDomain _) = True"
| "is_remote _ = False"

text \<open>The events a call added to the trace it started from.\<close>

definition added :: "trace \<Rightarrow> trace \<Rightarrow> trace" where
  "added t t' = drop (length t) t'"

text \<open>The revocation that a successful \<open>revokeBySerial\<close> of a certificate asks the RA for:
  the certificate decoded from the store's bytes, the reason, the OS user's name.\<close>

definition expected_revocation ::
  "env \<Rightarrow> Reason \<Rightarrow> core_Certificate \<Rightarrow> (x509_Certificate \<times> Reason \<times> string) option" where
  "expected_revocation e r c =
     (case sa_SelectCertificate e (Serial c) of
        Inl _ \<Rightarrow> None
      | Inr certObj \<Rightarrow>
          (case x509_ParseCertificate e (DER certObj) of
             Inl _ \<Rightarrow> None
           | Inr cert \<Rightarrow>
               (case fst (user_Current e) of
                  None \<Rightarrow> None
                | Some u \<Rightarrow> Some (cert, r, Username u))))"



subsection \<open>An example environment\<close>

text \<open>A store with the certificates 0a, 0b, 0c (well-formed) and 0d (bytes that do not
  decode); registration 1 owns 0a, 0b, 0c, registration 3 owns 0a and 0c, registration 2
  owns nothing. The RA refuses the certificate of 0b. The SA finds two valid and one
  pending authorization for example.invalid, and none for any other domain.\<close>

definition example_table :: "(Reason \<times> string) list" where
  "example_table =
     [(4, ''superseded''), (0, ''unspecified''), (9, ''privilegeWithdrawn''),
      (1, ''keyCompromise''), (10, ''aAcompromise''), (2, ''cACompromise''),
      (6, ''certificateHold''), (3, ''affiliationChanged''), (8, ''removeFromCRL''),
      (5, ''cessationOfOperation'')]"

definition example_certs :: "core_Certificate list" where
  "example_certs =
     [\<lparr>Serial = ''0a'', DER = []\<rparr>, \<lparr>Serial = ''0b'', DER = []\<rparr>, \<lparr>Serial = ''0c'', DER = []\<rparr>]"

definition example_x509 :: "int \<Rightarrow> x509_Certificate" where
  "example_x509 n = \<lparr>SerialNumber = n, Raw = [0x30, word_of_int n]\<rparr>"

definition example_env :: env where
  "example_env =
     \<lparr>ReasonToString = example_table,
      sa_SelectCertificate = (\<lambda>s.
        if s = ''0a'' then Inr \<lparr>Serial = ''0a'', DER = [0x30, 10]\<rparr>
        else if s = ''0b'' then Inr \<lparr>Serial = ''0b'', DER = [0x30, 11]\<rparr>
        else if s = ''0c'' then Inr \<lparr>Serial = ''0c'', DER = [0x30, 12]\<rparr>
        else if s = ''0d'' then Inr \<lparr>Serial = ''0d'', DER = [0xFF]\<rparr>
        else Inl ErrNoRows),
      tx_Select = (\<lambda>regID.
        if regID = 1 then Inr example_certs
        else if regID = 3 then Inr [\<lparr>Serial = ''0a'', DER = []\<rparr>, \<lparr>Serial = ''0c'', DER = []\<rparr>]
        else Inr []),
      x509_ParseCertificate = (\<lambda>der.
        if der = [0x30, 10] then Inr (example_x509 10)
        else if der = [0x30, 11] then Inr (example_x509 11)
        else if der = [0x30, 12] then Inr (example_x509 12)
        else Inl (OtherError ''asn1: structure error'')),
      user_Current = (Some \<lparr>Username = ''admin''\<rparr>, None),
      rac_AdministrativelyRevokeCertificate = (\<lambda>t cert reasonCode admin.
        if SerialNumber cert = 11 then Some (OtherError ''refused'') else None),
      sac_GetRegistration = (\<lambda>regID. None),
      sac_RevokeAuthorizationsByDomain = (\<lambda>ident.
        if Value ident = ''example.invalid'' then (2, 1, None) else (0, 0, None)),
      dbMap_Begin = None,
      tx_Commit = None,
      tx_Rollback = None,
      strconv_Atoi = (\<lambda>s.
        if s = ''1'' then Inr 1 else if s = ''7'' then Inr 7
        else Inl (OtherError ''invalid syntax'')),
      strconv_ParseInt = (\<lambda>s.
        if s = ''1'' then Inr 1 else if s = ''2'' then Inr 2 else if s = ''3'' then Inr 3
        else Inl (OtherError ''invalid syntax'')),
      setupContext = None\<rparr>"

text \<open>The same environment for a process whose user the OS cannot find: \<^verbatim>\<open>user.Current()\<close>
  gives a nil user and an error.\<close>

definition example_env_no_user :: env where
  "example_env_no_user =
     example_env\<lparr>user_Current := (None, Some (OtherError ''user: unknown userid 1000''))\<rparr>"

section \<open>Properties\<close>

subsection \<open>Traces\<close>

lemma remote_revocations_append:
  "remote_revocations (t @ u) = remote_revocations t @ remote_revocations u"
  by (induction t rule: remote_revocations.induct) simp_all

lemma added_append [simp]: "added t (t @ u) = u"
  by (simp add: added_def)

lemma added_self [simp]: "added t t = []"
  by (simp add: added_def)

lemma added_Nil [simp]: "added [] t = t"
  by (simp add: added_def)

lemma remote_calls_append [simp]: "remote_calls (t @ u) = remote_calls t + remote_calls u"
  by (simp add: remote_calls_def)

subsection \<open>Reason codes and the table\<close>

lemma valid_reason_in_registry:
  "\<not> invalid_reason r \<Longrightarrow> r \<in> set registry_keys"
proof -
  assume "\<not> invalid_reason r"
  then have "0 \<le> r" "r \<le> 10" "r \<noteq> 7" by (simp_all add: invalid_reason_def)
  then have "r = 0 \<or> r = 1 \<or> r = 2 \<or> r = 3 \<or> r = 4 \<or> r = 5 \<or> r = 6 \<or> r = 8 \<or> r = 9 \<or> r = 10"
    by arith
  then show ?thesis by (auto simp: registry_keys_def)
qed

lemma registry_label:
  assumes "registry m" "\<not> invalid_reason r"
  shows "(r, map_index m r) \<in> set m"
proof -
  have "r \<in> fst ` set m"
    using assms valid_reason_in_registry [of r] by (simp add: registry_def)
  then obtain l where l: "(r, l) \<in> set m" by force
  have "distinct (map fst m)" using assms(1) by (simp add: registry_def)
  then have "map_of m r = Some l" using l by simp
  then show ?thesis using l by (simp add: map_index_def)
qed

subsection \<open>revokeBySerial\<close>

text \<open>Claim C3, as the spec has it: for a reason code equal to 7, below 0 or above 10,
  RevokeBySerial returns the typed error InvalidReason to its caller. The program does
  not: at reason code 7 the call of line 112 does not return, it panics (line 114), so
  its caller gets no error value to examine.\<close>

theorem revokeBySerial_reason_7_does_not_return:
  "revokeBySerial example_env ''0a'' 7 [] =
     (Panicked (PanicMessage ''Invalid reason code: 7''), [])"
proof -
  have "show_int 7 = ''7''" by code_simp
  then show ?thesis by (simp add: revokeBySerial_def)
qed

text \<open>Claim C3, amended: for a reason code equal to 7, below 0 or above 10,
  \<open>revokeBySerial\<close> panics with the message "Invalid reason code: " followed by the code,
  and has done nothing before: the trace is the one it was given, with no store lookup,
  no remote call and no audit record added.\<close>

theorem revokeBySerial_invalid_reason_panics:
  "invalid_reason r \<Longrightarrow>
   revokeBySerial e serial r t =
     (Panicked (PanicMessage (''Invalid reason code: '' @ show_int r)), t)"
  by (simp add: revokeBySerial_def invalid_reason_def)

theorem revokeBySerial_invalid_reason_panics_witness:
  "invalid_reason 7 \<and> invalid_reason (- 1) \<and> invalid_reason 11 \<and>
   revokeBySerial example_env ''0a'' 7 [] =
     (Panicked (PanicMessage ''Invalid reason code: 7''), []) \<and>
   revokeBySerial example_env ''0a'' (- 1) [] =
     (Panicked (PanicMessage ''Invalid reason code: -1''), []) \<and>
   revokeBySerial example_env ''0a'' 11 [TxBegin] =
     (Panicked (PanicMessage ''Invalid reason code: 11''), [TxBegin])"
proof -
  have i: "invalid_reason 7" "invalid_reason (- 1)" "invalid_reason 11"
    by (simp_all add: invalid_reason_def)
  have s: "show_int 7 = ''7''" "show_int (- 1) = ''-1''" "show_int 11 = ''11''"
    by code_simp+
  show ?thesis
    using revokeBySerial_invalid_reason_panics [OF i(1), of example_env "''0a''" "[]"]
      revokeBySerial_invalid_reason_panics [OF i(2), of example_env "''0a''" "[]"]
      revokeBySerial_invalid_reason_panics [OF i(3), of example_env "''0a''" "[TxBegin]"]
      i s by simp
qed

text \<open>Claim C5: for a serial that the store does not hold (the lookup answers
  \<^verbatim>\<open>sql.ErrNoRows\<close>) and a valid reason code, \<open>revokeBySerial\<close> returns the NotFound error
  for that serial, having looked the serial up once and made no revoke call on the RA.\<close>

theorem revokeBySerial_absent_serial:
  assumes "\<not> invalid_reason r" "sa_SelectCertificate e serial = Inl ErrNoRows"
  shows "revokeBySerial e serial r t =
           (Returned (Some (NotFoundError serial)), t @ [DbSelectCertificate serial]) \<and>
         remote_calls (added t (snd (revokeBySerial e serial r t))) = 0"
  using assms by (simp add: revokeBySerial_def invalid_reason_def remote_calls_def)

theorem revokeBySerial_absent_serial_witness:
  "\<not> invalid_reason 1 \<and> sa_SelectCertificate example_env ''ff'' = Inl ErrNoRows \<and>
   revokeBySerial example_env ''ff'' 1 [TxBegin] =
     (Returned (Some (NotFoundError ''ff'')), [TxBegin, DbSelectCertificate ''ff'']) \<and>
   remote_calls (added [TxBegin] (snd (revokeBySerial example_env ''ff'' 1 [TxBegin]))) = 0"
proof -
  have v: "\<not> invalid_reason 1" by (simp add: invalid_reason_def)
  have a: "sa_SelectCertificate example_env ''ff'' = Inl ErrNoRows"
    by (simp add: example_env_def)
  show ?thesis
    using revokeBySerial_absent_serial [OF v a, of "[TxBegin]"] v a
    by (simp add: added_def remote_calls_def)
qed

lemma example_registry: "registry example_table"
  by (auto simp: registry_def example_table_def registry_keys_def)

text \<open>When the OS lookup of line 129 yields a user: for a serial the store holds, whose
  bytes decode, and a valid reason code, \<open>revokeBySerial\<close> makes exactly one revoke call on
  the RA, with the decoded certificate and the reason code it was given; when that call
  succeeds it writes exactly one audit record, "Revoked certificate SERIAL with reason
  'LABEL'", where LABEL is what the table holds for the reason code (an entry of the
  table, when the table has the spec's keys), and when the call fails it writes none and
  returns the RA's error.\<close>

lemma revokeBySerial_present_serial:
  assumes "\<not> invalid_reason r"
    and "sa_SelectCertificate e serial = Inr certObj"
    and "x509_ParseCertificate e (DER certObj) = Inr cert"
    and "fst (user_Current e) = Some u"
    and "res = rac_AdministrativelyRevokeCertificate e (t @ [DbSelectCertificate serial]) cert r
                 (Username u)"
  shows "revokeBySerial e serial r t =
           (Returned res,
            t @ [DbSelectCertificate serial, RaRevoke cert r (Username u) res]
              @ (if res = None
                 then [LogInfo (''Revoked certificate '' @ serial @ '' with reason ''
                         @ [CHR 0x27] @ map_index (ReasonToString e) r @ [CHR 0x27])]
                 else [])) \<and>
         remote_calls (added t (snd (revokeBySerial e serial r t))) = 1 \<and>
         (registry (ReasonToString e) \<longrightarrow>
            (r, map_index (ReasonToString e) r) \<in> set (ReasonToString e))"
proof -
  have run: "revokeBySerial e serial r t =
           (Returned res,
            t @ [DbSelectCertificate serial, RaRevoke cert r (Username u) res]
              @ (if res = None
                 then [LogInfo (''Revoked certificate '' @ serial @ '' with reason ''
                         @ [CHR 0x27] @ map_index (ReasonToString e) r @ [CHR 0x27])]
                 else []))"
    using assms(1-4) unfolding assms(5)
    by (simp add: revokeBySerial_def invalid_reason_def revoked_message_def Let_def
          split: option.splits)
  have calls: "remote_calls (added t (snd (revokeBySerial e serial r t))) = 1"
    unfolding run by (simp add: remote_calls_def)
  show ?thesis using run calls registry_label [OF _ assms(1)] by blast
qed

lemma revokeBySerial_present_serial_example:
  "\<not> invalid_reason 1 \<and>
   sa_SelectCertificate example_env ''0a'' = Inr \<lparr>Serial = ''0a'', DER = [0x30, 10]\<rparr> \<and>
   x509_ParseCertificate example_env (DER \<lparr>Serial = ''0a'', DER = [0x30, 10]\<rparr>)
     = Inr (example_x509 10) \<and>
   fst (user_Current example_env) = Some \<lparr>Username = ''admin''\<rparr> \<and>
   rac_AdministrativelyRevokeCertificate example_env [DbSelectCertificate ''0a'']
     (example_x509 10) 1 ''admin'' = None \<and>
   revokeBySerial example_env ''0a'' 1 [] =
     (Returned None,
      [DbSelectCertificate ''0a'', RaRevoke (example_x509 10) 1 ''admin'' None,
       LogInfo (''Revoked certificate 0a with reason '' @ [CHR 0x27] @ ''keyCompromise''
                  @ [CHR 0x27])]) \<and>
   remote_calls (added [] (snd (revokeBySerial example_env ''0a'' 1 []))) = 1 \<and>
   registry (ReasonToString example_env) \<and>
   (1, ''keyCompromise'') \<in> set (ReasonToString example_env)"
proof -
  have v: "\<not> invalid_reason 1" by (simp add: invalid_reason_def)
  have s: "sa_SelectCertificate example_env ''0a'' = Inr \<lparr>Serial = ''0a'', DER = [0x30, 10]\<rparr>"
    by (simp add: example_env_def)
  have p: "x509_ParseCertificate example_env (DER \<lparr>Serial = ''0a'', DER = [0x30, 10]\<rparr>)
             = Inr (example_x509 10)"
    by (simp add: example_env_def)
  have u: "fst (user_Current example_env) = Some \<lparr>Username = ''admin''\<rparr>"
    by (simp add: example_env_def)
  have r: "None = rac_AdministrativelyRevokeCertificate example_env
                    ([] @ [DbSelectCertificate ''0a'']) (example_x509 10) 1
                    (Username \<lparr>Username = ''admin''\<rparr>)"
    by (simp add: example_env_def example_x509_def)
  have g: "registry (ReasonToString example_env)"
    using example_registry by (simp add: example_env_def)
  have l: "map_index (ReasonToString example_env) 1 = ''keyCompromise''"
    by (simp add: example_env_def example_table_def map_index_def)
  show ?thesis
    using revokeBySerial_present_serial [OF v s p u r] v s p u r g l
    by (simp add: remote_calls_def)
qed

text \<open>Claim C6: for every serial the store holds, whose bytes decode, \<open>revokeBySerial\<close> with a
  valid reason code makes exactly one revoke call on the RA and, when it succeeds, writes
  one audit record. The program at a failing input: the store holds serial 0a, its bytes
  decode, the reason code is 1, and the OS lookup of line 129 fails, giving a nil user;
  line 130 reads the name of that user before the call, so \<open>revokeBySerial\<close> panics after
  the store lookup and makes no revoke call at all.\<close>

theorem revokeBySerial_nil_user_makes_no_remote_call:
  "sa_SelectCertificate example_env_no_user ''0a'' = Inr \<lparr>Serial = ''0a'', DER = [0x30, 10]\<rparr> \<and>
   x509_ParseCertificate example_env_no_user [0x30, 10] = Inr (example_x509 10) \<and>
   user_Current example_env_no_user = (None, Some (OtherError ''user: unknown userid 1000'')) \<and>
   revokeBySerial example_env_no_user ''0a'' 1 [] =
     (Panicked NilPointerDereference, [DbSelectCertificate ''0a'']) \<and>
   remote_calls (snd (revokeBySerial example_env_no_user ''0a'' 1 [])) = 0"
  by (simp add: example_env_no_user_def example_env_def revokeBySerial_def remote_calls_def)

text \<open>Claim C9: whenever \<open>revokeBySerial\<close> makes the revoke call on the RA, the
  administrator identity it passes is the name of the user that the OS lookup of line 129
  yielded, and what the call returns is what \<open>revokeBySerial\<close> returns; the error value of
  that lookup never reaches the result: with any error in its place, \<open>revokeBySerial\<close> does
  and returns the same as with none.\<close>

theorem revokeBySerial_user_lookup_error_discarded:
  "revokeBySerial (e\<lparr>user_Current := (u, err)\<rparr>) serial r t
     = revokeBySerial (e\<lparr>user_Current := (u, None)\<rparr>) serial r t \<and>
   (\<forall>cert r' admin res.
      RaRevoke cert r' admin res \<in> set (added t (snd (revokeBySerial e serial r t))) \<longrightarrow>
        (\<exists>usr. fst (user_Current e) = Some usr \<and> admin = Username usr) \<and>
        fst (revokeBySerial e serial r t) = Returned res)"
  by (auto simp: revokeBySerial_def Let_def split: sum.splits option.splits if_splits)

theorem revokeBySerial_user_lookup_error_discarded_witness:
  "revokeBySerial
     (example_env\<lparr>user_Current :=
        (Some \<lparr>Username = ''admin''\<rparr>, Some (OtherError ''user: lookup failed''))\<rparr>) ''0a'' 1 []
     = revokeBySerial (example_env\<lparr>user_Current := (Some \<lparr>Username = ''admin''\<rparr>, None)\<rparr>)
         ''0a'' 1 [] \<and>
   RaRevoke (example_x509 10) 1 ''admin'' None
     \<in> set (added [] (snd (revokeBySerial example_env ''0a'' 1 []))) \<and>
   (\<exists>usr. fst (user_Current example_env) = Some usr \<and> ''admin'' = Username usr) \<and>
   fst (revokeBySerial example_env ''0a'' 1 []) = Returned None"
proof -
  have m: "RaRevoke (example_x509 10) 1 ''admin'' None
             \<in> set (added [] (snd (revokeBySerial example_env ''0a'' 1 [])))"
    by (simp add: revokeBySerial_def example_env_def example_x509_def)
  show ?thesis
    using revokeBySerial_user_lookup_error_discarded
        [where e = example_env and u = "Some \<lparr>Username = ''admin''\<rparr>"
           and err = "Some (OtherError ''user: lookup failed'')" and serial = "''0a''"
           and r = 1 and t = "[]"] m
    by blast
qed

subsection \<open>revokeByReg and its caller\<close>


text \<open>Claim C10: for a registration that owns no certificate (the enumeration of line 141
  is empty), \<open>revokeByReg\<close> returns nil having made no revoke call, and its caller issues
  the commit; this for every reason code, the invalid ones too, since the reason code is
  only examined inside \<open>revokeBySerial\<close>, once per enumerated certificate.\<close>

theorem revokeByReg_no_certificates:
  assumes "tx_Select e regID = Inr []"
  shows "revokeByReg e regID r t = (Returned None, t @ [DbSelectByRegistration regID]) \<and>
         revokeByReg_caller e regID r t =
           (case tx_Commit e of
              None \<Rightarrow> Exit0
            | Some err \<Rightarrow> Failed (''Couldn'' @ [CHR 0x27] @ ''t cleanly close transaction'') err,
            t @ [DbSelectByRegistration regID, TxCommit]) \<and>
         remote_calls (added t (snd (revokeByReg_caller e regID r t))) = 0"
  using assms
  by (simp add: revokeByReg_def revokeByReg_caller_def commit_def FailOnError_def
        remote_calls_def split: option.splits)

theorem revokeByReg_no_certificates_witness:
  "tx_Select example_env 2 = Inr [] \<and> invalid_reason 7 \<and>
   revokeByReg example_env 2 7 [] = (Returned None, [DbSelectByRegistration 2]) \<and>
   revokeByReg_caller example_env 2 7 [] = (Exit0, [DbSelectByRegistration 2, TxCommit]) \<and>
   remote_calls (added [] (snd (revokeByReg_caller example_env 2 7 []))) = 0"
proof -
  have s: "tx_Select example_env 2 = Inr []" by (simp add: example_env_def)
  have c: "tx_Commit example_env = None" by (simp add: example_env_def)
  show ?thesis
    using revokeByReg_no_certificates [OF s, of 7 "[]"] s c
    by (simp add: invalid_reason_def remote_calls_def)
qed




subsection \<open>list-reasons and auth-revoke\<close>

lemma mset_sort_insert: "mset (sort_insert x xs) = add_mset x (mset xs)"
  by (induction xs) simp_all

lemma set_sort_insert: "set (sort_insert x xs) = insert x (set xs)"
  by (induction xs) auto

lemma sorted_sort_insert: "sorted xs \<Longrightarrow> sorted (sort_insert x xs)"
  by (induction xs) (auto simp: set_sort_insert Less_def)

lemma mset_sort_Sort: "mset (sort_Sort xs) = mset xs"
  by (induction xs) (simp_all add: mset_sort_insert)

lemma sorted_sort_Sort: "sorted (sort_Sort xs)"
  by (induction xs) (simp_all add: sorted_sort_insert)

lemma sort_Sort_unique:
  assumes "mset ys = mset xs" "sorted ys"
  shows "ys = sort_Sort xs"
proof -
  have "sort xs = ys" using assms by (rule properties_for_sort)
  moreover have "sort xs = sort_Sort xs"
    using mset_sort_Sort sorted_sort_Sort by (rule properties_for_sort)
  ultimately show ?thesis by simp
qed

lemma registry_codes:
  assumes "registry m"
  shows "list_reasons_codes m = registry_keys"
proof -
  have d: "distinct (map fst m)" and s: "set (map fst m) = set registry_keys"
    using assms by (simp_all add: registry_def)
  have "distinct registry_keys" "sorted registry_keys"
    by (simp_all add: registry_keys_def)
  then have "mset registry_keys = mset (map fst m)"
    using d s set_eq_iff_mset_eq_distinct [of registry_keys "map fst m"] by metis
  then have "registry_keys = sort_Sort (map fst m)"
    using \<open>sorted registry_keys\<close> by (rule sort_Sort_unique)
  then show ?thesis by (simp add: list_reasons_codes_def)
qed

lemma entries_of_table:
  assumes "distinct (map fst m)"
  shows "set (list_reasons_entries m) = set m"
proof -
  have codes: "set (list_reasons_codes m) = fst ` set m"
    using mset_sort_Sort [of "map fst m"]
    by (metis list_reasons_codes_def set_map set_mset_mset)
  have look: "\<And>k l. (k, l) \<in> set m \<Longrightarrow> map_index m k = l"
    using assms by (simp add: map_index_def)
  show ?thesis
  proof (intro set_eqI iffI)
    fix kl assume "kl \<in> set (list_reasons_entries m)"
    then obtain k where k: "k \<in> fst ` set m" and kl: "kl = (k, map_index m k)"
      using codes by (auto simp: list_reasons_entries_def)
    from k obtain l where "(k, l) \<in> set m" by force
    then show "kl \<in> set m" using look kl by simp
  next
    fix kl assume m: "kl \<in> set m"
    then have "fst kl \<in> set (list_reasons_codes m)" using codes by simp
    moreover have "map_index m (fst kl) = snd kl" using look [of "fst kl" "snd kl"] m by simp
    ultimately show "kl \<in> set (list_reasons_entries m)"
      by (force simp: list_reasons_entries_def)
  qed
qed

lemma show_int_registry:
  "show_int 0 = ''0''" "show_int 1 = ''1''" "show_int 2 = ''2''" "show_int 3 = ''3''"
  "show_int 4 = ''4''" "show_int 5 = ''5''" "show_int 6 = ''6''" "show_int 8 = ''8''"
  "show_int 9 = ''9''" "show_int 10 = ''10''"
  by code_simp+

text \<open>Claim C8: \<^verbatim>\<open>list-reasons\<close> prints, after its heading, one line "CODE: LABEL" for each
  entry of the table, in ascending order of the codes, whatever the order in which the
  map yields its keys; when the table has the keys the spec gives it, the lines are those
  of the codes 0 to 6 and 8 to 10 with their labels, and code 7 is not among them.\<close>

theorem list_reasons_sorted_without_7:
  "sorted (map fst (list_reasons_entries (ReasonToString e))) \<and>
   main_switch e ''list-reasons'' args t =
     (Exit0,
      t @ Stdout (''Revocation reason codes'' @ [CHR 0x0A] @ ''-----------------------''
                    @ [CHR 0x0A, CHR 0x0A])
            # map (\<lambda>kl. Stdout (show_int (fst kl) @ '': '' @ snd kl @ [CHR 0x0A]))
                (list_reasons_entries (ReasonToString e))) \<and>
   (distinct (map fst (ReasonToString e)) \<longrightarrow>
      set (list_reasons_entries (ReasonToString e)) = set (ReasonToString e)) \<and>
   (registry (ReasonToString e) \<longrightarrow>
      map fst (list_reasons_entries (ReasonToString e)) = [0, 1, 2, 3, 4, 5, 6, 8, 9, 10] \<and>
      7 \<notin> fst ` set (list_reasons_entries (ReasonToString e)) \<and>
      set (list_reasons_entries (ReasonToString e)) = set (ReasonToString e) \<and>
      main_switch e ''list-reasons'' args t =
        (Exit0,
         t @ Stdout (''Revocation reason codes'' @ [CHR 0x0A] @ ''-----------------------''
                       @ [CHR 0x0A, CHR 0x0A])
               # map (\<lambda>dk. Stdout (fst dk @ '': '' @ map_index (ReasonToString e) (snd dk)
                                     @ [CHR 0x0A]))
                   [(''0'', 0), (''1'', 1), (''2'', 2), (''3'', 3), (''4'', 4), (''5'', 5),
                    (''6'', 6), (''8'', 8), (''9'', 9), (''10'', 10)]))"
proof -
  have fsts: "map fst (list_reasons_entries m) = list_reasons_codes m" for m
    by (simp add: list_reasons_entries_def comp_def)
  have a: "sorted (map fst (list_reasons_entries (ReasonToString e)))"
    unfolding fsts by (simp add: list_reasons_codes_def sorted_sort_Sort)
  have b: "main_switch e ''list-reasons'' args t =
     (Exit0,
      t @ Stdout (''Revocation reason codes'' @ [CHR 0x0A] @ ''-----------------------''
                    @ [CHR 0x0A, CHR 0x0A])
            # map (\<lambda>kl. Stdout (show_int (fst kl) @ '': '' @ snd kl @ [CHR 0x0A]))
                (list_reasons_entries (ReasonToString e)))"
    by (simp add: main_switch_def list_reasons_def list_reasons_header_def
          list_reasons_line_def)
  have d: "distinct (map fst (ReasonToString e)) \<longrightarrow>
      set (list_reasons_entries (ReasonToString e)) = set (ReasonToString e)"
    using entries_of_table by blast
  have c: "map fst (list_reasons_entries (ReasonToString e)) = [0, 1, 2, 3, 4, 5, 6, 8, 9, 10] \<and>
      7 \<notin> fst ` set (list_reasons_entries (ReasonToString e)) \<and>
      set (list_reasons_entries (ReasonToString e)) = set (ReasonToString e) \<and>
      main_switch e ''list-reasons'' args t =
        (Exit0,
         t @ Stdout (''Revocation reason codes'' @ [CHR 0x0A] @ ''-----------------------''
                       @ [CHR 0x0A, CHR 0x0A])
               # map (\<lambda>dk. Stdout (fst dk @ '': '' @ map_index (ReasonToString e) (snd dk)
                                     @ [CHR 0x0A]))
                   [(''0'', 0), (''1'', 1), (''2'', 2), (''3'', 3), (''4'', 4), (''5'', 5),
                    (''6'', 6), (''8'', 8), (''9'', 9), (''10'', 10)])"
    if r: "registry (ReasonToString e)"
  proof -
    have codes: "list_reasons_codes (ReasonToString e) = [0, 1, 2, 3, 4, 5, 6, 8, 9, 10]"
      using registry_codes [OF r] by (simp add: registry_keys_def)
    have keys: "map fst (list_reasons_entries (ReasonToString e)) = [0, 1, 2, 3, 4, 5, 6, 8, 9, 10]"
      unfolding fsts by (rule codes)
    have "fst ` set (list_reasons_entries (ReasonToString e))
            = set (map fst (list_reasons_entries (ReasonToString e)))" by simp
    then have no7: "7 \<notin> fst ` set (list_reasons_entries (ReasonToString e))"
      unfolding keys by simp
    have "distinct (map fst (ReasonToString e))" using r by (simp add: registry_def)
    then have tab: "set (list_reasons_entries (ReasonToString e)) = set (ReasonToString e)"
      using d by blast
    have out: "main_switch e ''list-reasons'' args t =
        (Exit0,
         t @ Stdout (''Revocation reason codes'' @ [CHR 0x0A] @ ''-----------------------''
                       @ [CHR 0x0A, CHR 0x0A])
               # map (\<lambda>dk. Stdout (fst dk @ '': '' @ map_index (ReasonToString e) (snd dk)
                                     @ [CHR 0x0A]))
                   [(''0'', 0), (''1'', 1), (''2'', 2), (''3'', 3), (''4'', 4), (''5'', 5),
                    (''6'', 6), (''8'', 8), (''9'', 9), (''10'', 10)])"
      unfolding b by (simp add: list_reasons_entries_def codes show_int_registry)
    show ?thesis using keys no7 tab out by blast
  qed
  show ?thesis using a b c d by blast
qed

theorem list_reasons_sorted_without_7_witness:
  "registry (ReasonToString example_env) \<and>
   sorted (map fst (list_reasons_entries (ReasonToString example_env))) \<and>
   map fst (list_reasons_entries (ReasonToString example_env)) = [0, 1, 2, 3, 4, 5, 6, 8, 9, 10] \<and>
   7 \<notin> fst ` set (list_reasons_entries (ReasonToString example_env)) \<and>
   set (list_reasons_entries (ReasonToString example_env)) = set (ReasonToString example_env) \<and>
   main_switch example_env ''list-reasons'' [] [] =
     (Exit0,
      [Stdout (''Revocation reason codes'' @ [CHR 0x0A] @ ''-----------------------''
                 @ [CHR 0x0A, CHR 0x0A]),
       Stdout (''0: unspecified'' @ [CHR 0x0A]),
       Stdout (''1: keyCompromise'' @ [CHR 0x0A]),
       Stdout (''2: cACompromise'' @ [CHR 0x0A]),
       Stdout (''3: affiliationChanged'' @ [CHR 0x0A]),
       Stdout (''4: superseded'' @ [CHR 0x0A]),
       Stdout (''5: cessationOfOperation'' @ [CHR 0x0A]),
       Stdout (''6: certificateHold'' @ [CHR 0x0A]),
       Stdout (''8: removeFromCRL'' @ [CHR 0x0A]),
       Stdout (''9: privilegeWithdrawn'' @ [CHR 0x0A]),
       Stdout (''10: aAcompromise'' @ [CHR 0x0A])])"
proof -
  have g: "registry (ReasonToString example_env)"
    using example_registry by (simp add: example_env_def)
  have l: "map (map_index (ReasonToString example_env)) [0, 1, 2, 3, 4, 5, 6, 8, 9, 10] =
      [''unspecified'', ''keyCompromise'', ''cACompromise'', ''affiliationChanged'',
       ''superseded'', ''cessationOfOperation'', ''certificateHold'', ''removeFromCRL'',
       ''privilegeWithdrawn'', ''aAcompromise'']"
    by (simp add: example_env_def example_table_def map_index_def)
  note T = list_reasons_sorted_without_7 [of example_env "[]" "[]"]
  have s: "sorted (map fst (list_reasons_entries (ReasonToString example_env)))"
    using T by blast
  have R: "map fst (list_reasons_entries (ReasonToString example_env))
             = [0, 1, 2, 3, 4, 5, 6, 8, 9, 10] \<and>
      7 \<notin> fst ` set (list_reasons_entries (ReasonToString example_env)) \<and>
      set (list_reasons_entries (ReasonToString example_env)) = set (ReasonToString example_env) \<and>
      main_switch example_env ''list-reasons'' [] [] =
        (Exit0,
         [] @ Stdout (''Revocation reason codes'' @ [CHR 0x0A] @ ''-----------------------''
                       @ [CHR 0x0A, CHR 0x0A])
               # map (\<lambda>dk. Stdout (fst dk @ '': '' @ map_index (ReasonToString example_env) (snd dk)
                                     @ [CHR 0x0A]))
                   [(''0'', 0), (''1'', 1), (''2'', 2), (''3'', 3), (''4'', 4), (''5'', 5),
                    (''6'', 6), (''8'', 8), (''9'', 9), (''10'', 10)])"
    using T g by blast
  have out: "main_switch example_env ''list-reasons'' [] [] =
     (Exit0,
      [Stdout (''Revocation reason codes'' @ [CHR 0x0A] @ ''-----------------------''
                 @ [CHR 0x0A, CHR 0x0A]),
       Stdout (''0: unspecified'' @ [CHR 0x0A]),
       Stdout (''1: keyCompromise'' @ [CHR 0x0A]),
       Stdout (''2: cACompromise'' @ [CHR 0x0A]),
       Stdout (''3: affiliationChanged'' @ [CHR 0x0A]),
       Stdout (''4: superseded'' @ [CHR 0x0A]),
       Stdout (''5: cessationOfOperation'' @ [CHR 0x0A]),
       Stdout (''6: certificateHold'' @ [CHR 0x0A]),
       Stdout (''8: removeFromCRL'' @ [CHR 0x0A]),
       Stdout (''9: privilegeWithdrawn'' @ [CHR 0x0A]),
       Stdout (''10: aAcompromise'' @ [CHR 0x0A])])"
    using R l by simp
  show ?thesis using g s R out by blast
qed

text \<open>Claim C7: \<^verbatim>\<open>auth-revoke\<close> of a domain makes exactly one call on a remote authority, the
  SA's RevokeAuthorizationsByDomain for the DNS identifier of that domain, and begins no
  store transaction; when the call succeeds, the two counts it returned are what the log
  record and the two statistics carry, unchanged, and the command ends normally, also when
  both counts are zero; when the call fails, the command ends with that error.\<close>

theorem auth_revoke_one_remote_call:
  assumes "setupContext e = None"
    and "sac_RevokeAuthorizationsByDomain e \<lparr>Type = IdentifierDNS, Value = domain\<rparr>
           = (authsRevoked, pendingAuthsRevoked, err)"
  shows "main_switch e ''auth-revoke'' [domain] t =
           (case err of
              None \<Rightarrow> Exit0
            | Some x \<Rightarrow> Failed (''Failed to revoke authorizations for '' @ domain) x,
            t @ SaRevokeAuthorizationsByDomain \<lparr>Type = IdentifierDNS, Value = domain\<rparr>
                  # (case err of
                       None \<Rightarrow>
                         [LogInfo (''Revoked '' @ show_int pendingAuthsRevoked
                                     @ '' pending authorizations and '' @ show_int authsRevoked
                                     @ '' final authorizations'' @ [CHR 0x0A]),
                          StatsInc ''RevokedAuthorizations'' authsRevoked,
                          StatsInc ''RevokedPendingAuthorizations'' pendingAuthsRevoked]
                     | Some x \<Rightarrow> [])) \<and>
         length (filter is_remote (added t (snd (main_switch e ''auth-revoke'' [domain] t)))) = 1 \<and>
         TxBegin \<notin> set (added t (snd (main_switch e ''auth-revoke'' [domain] t)))"
  using assms
  by (simp add: main_switch_def auth_revoke_def FailOnError_def auth_revoke_message_def
        Let_def split: option.splits)

theorem auth_revoke_one_remote_call_witness:
  "setupContext example_env = None \<and>
   sac_RevokeAuthorizationsByDomain example_env
     \<lparr>Type = IdentifierDNS, Value = ''example.invalid''\<rparr> = (2, 1, None) \<and>
   sac_RevokeAuthorizationsByDomain example_env
     \<lparr>Type = IdentifierDNS, Value = ''example.org''\<rparr> = (0, 0, None) \<and>
   main_switch example_env ''auth-revoke'' [''example.invalid''] [] =
     (Exit0,
      [SaRevokeAuthorizationsByDomain \<lparr>Type = IdentifierDNS, Value = ''example.invalid''\<rparr>,
       LogInfo (''Revoked 1 pending authorizations and 2 final authorizations'' @ [CHR 0x0A]),
       StatsInc ''RevokedAuthorizations'' 2, StatsInc ''RevokedPendingAuthorizations'' 1]) \<and>
   main_switch example_env ''auth-revoke'' [''example.org''] [] =
     (Exit0,
      [SaRevokeAuthorizationsByDomain \<lparr>Type = IdentifierDNS, Value = ''example.org''\<rparr>,
       LogInfo (''Revoked 0 pending authorizations and 0 final authorizations'' @ [CHR 0x0A]),
       StatsInc ''RevokedAuthorizations'' 0, StatsInc ''RevokedPendingAuthorizations'' 0]) \<and>
   length (filter is_remote
     (added [] (snd (main_switch example_env ''auth-revoke'' [''example.invalid''] [])))) = 1 \<and>
   TxBegin \<notin> set (added [] (snd (main_switch example_env ''auth-revoke'' [''example.invalid''] [])))"
proof -
  have s: "setupContext example_env = None" by (simp add: example_env_def)
  have a: "sac_RevokeAuthorizationsByDomain example_env
     \<lparr>Type = IdentifierDNS, Value = ''example.invalid''\<rparr> = (2, 1, None)"
    by (simp add: example_env_def)
  have b: "sac_RevokeAuthorizationsByDomain example_env
     \<lparr>Type = IdentifierDNS, Value = ''example.org''\<rparr> = (0, 0, None)"
    by (simp add: example_env_def)
  have n: "show_int 0 = ''0''" "show_int 1 = ''1''" "show_int 2 = ''2''" by code_simp+
  show ?thesis
    using auth_revoke_one_remote_call [OF s a, of "[]"]
      auth_revoke_one_remote_call [OF s b, of "[]"] s a b n
    by simp
qed

lemma revokeBySerial_adds:
  "\<exists>new. snd (revokeBySerial e s r t) = t @ new \<and> TxCommit \<notin> set new \<and> TxRollback \<notin> set new"
  by (simp add: revokeBySerial_def Let_def split: sum.splits option.splits)

lemma revokeByReg_loop_adds:
  "\<exists>new. snd (revokeByReg_loop e r certs t) = t @ new \<and> TxCommit \<notin> set new \<and> TxRollback \<notin> set new"
proof (induction certs arbitrary: t)
  case Nil
  show ?case by simp
next
  case (Cons c cs)
  obtain out t' where call: "revokeBySerial e (Serial c) r t = (out, t')"
    by (cases "revokeBySerial e (Serial c) r t")
  obtain new1 where new1: "t' = t @ new1" "TxCommit \<notin> set new1" "TxRollback \<notin> set new1"
    using revokeBySerial_adds [of e "Serial c" r t] call by auto
  show ?case
  proof (cases "out = Returned None")
    case True
    obtain new2 where new2: "snd (revokeByReg_loop e r cs t') = t' @ new2"
        "TxCommit \<notin> set new2" "TxRollback \<notin> set new2"
      using Cons.IH [of t'] by blast
    have "snd (revokeByReg_loop e r (c # cs) t) = t @ (new1 @ new2)"
      using call True new1 new2 by simp
    moreover have "TxCommit \<notin> set (new1 @ new2)" "TxRollback \<notin> set (new1 @ new2)"
      using new1 new2 by simp_all
    ultimately show ?thesis by blast
  next
    case False
    have "snd (revokeByReg_loop e r (c # cs) t) = t'"
    proof (cases out)
      case (Returned err)
      then show ?thesis using call False by (cases err) simp_all
    next
      case (Panicked p)
      then show ?thesis using call by simp
    qed
    then show ?thesis using new1 by blast
  qed
qed

lemma revokeByReg_loop_chain:
  "\<exists>k ts. k \<le> length certs \<and> length ts = Suc k \<and> ts ! 0 = t \<and>
     (\<forall>i<k. revokeBySerial e (Serial (certs ! i)) r (ts ! i) = (Returned None, ts ! Suc i)) \<and>
     (if k = length certs then revokeByReg_loop e r certs t = (Returned None, ts ! k)
      else revokeByReg_loop e r certs t = revokeBySerial e (Serial (certs ! k)) r (ts ! k) \<and>
           fst (revokeBySerial e (Serial (certs ! k)) r (ts ! k)) \<noteq> Returned None)"
proof (induction certs arbitrary: t)
  case Nil
  have "length [t] = Suc 0 \<and> [t] ! 0 = t" by simp
  then show ?case by (intro exI [of _ 0] exI [of _ "[t]"]) simp
next
  case (Cons c cs)
  obtain out t' where call: "revokeBySerial e (Serial c) r t = (out, t')"
    by (cases "revokeBySerial e (Serial c) r t")
  show ?case
  proof (cases "out = Returned None")
    case True
    from Cons.IH [of t'] obtain k ts where
      k: "k \<le> length cs" and len: "length ts = Suc k" and hd: "ts ! 0 = t'" and
      chain: "\<forall>i<k. revokeBySerial e (Serial (cs ! i)) r (ts ! i) = (Returned None, ts ! Suc i)" and
      fin: "if k = length cs then revokeByReg_loop e r cs t' = (Returned None, ts ! k)
            else revokeByReg_loop e r cs t' = revokeBySerial e (Serial (cs ! k)) r (ts ! k) \<and>
                 fst (revokeBySerial e (Serial (cs ! k)) r (ts ! k)) \<noteq> Returned None"
      by blast
    have chain': "\<forall>i<Suc k. revokeBySerial e (Serial ((c # cs) ! i)) r ((t # ts) ! i)
                    = (Returned None, (t # ts) ! Suc i)"
    proof (intro allI impI)
      fix i assume "i < Suc k"
      show "revokeBySerial e (Serial ((c # cs) ! i)) r ((t # ts) ! i)
              = (Returned None, (t # ts) ! Suc i)"
      proof (cases i)
        case 0
        then show ?thesis using call True hd by simp
      next
        case (Suc j)
        then show ?thesis using chain \<open>i < Suc k\<close> by simp
      qed
    qed
    have loop: "revokeByReg_loop e r (c # cs) t = revokeByReg_loop e r cs t'"
      using call True by simp
    have fin': "if Suc k = length (c # cs)
                then revokeByReg_loop e r (c # cs) t = (Returned None, (t # ts) ! Suc k)
                else revokeByReg_loop e r (c # cs) t
                       = revokeBySerial e (Serial ((c # cs) ! Suc k)) r ((t # ts) ! Suc k) \<and>
                     fst (revokeBySerial e (Serial ((c # cs) ! Suc k)) r ((t # ts) ! Suc k))
                       \<noteq> Returned None"
      using fin loop by simp
    show ?thesis
      by (rule exI [of _ "Suc k"], rule exI [of _ "t # ts"]) (use k len chain' fin' in simp)
  next
    case False
    have loop: "revokeByReg_loop e r (c # cs) t = (out, t')"
    proof (cases out)
      case (Returned err)
      then show ?thesis using call False by (cases err) simp_all
    next
      case (Panicked p)
      then show ?thesis using call by simp
    qed
    show ?thesis
      by (rule exI [of _ 0], rule exI [of _ "[t]"]) (use call False loop in simp)
  qed
qed

lemma revokeByReg_caller_cases:
  assumes "revokeByReg e regID r t = (out, t')"
  shows "snd (revokeByReg_caller e regID r t) =
           t' @ (case out of
                   Returned None \<Rightarrow> [TxCommit]
                 | Returned (Some err) \<Rightarrow> [TxRollback]
                 | Panicked p \<Rightarrow> [])"
    and "out \<noteq> Returned None \<Longrightarrow> fst (revokeByReg_caller e regID r t) \<noteq> Exit0"
  using assms
  by (auto simp: revokeByReg_caller_def commit_def FailOnError_def sa_Rollback_def Let_def
        split: outcome.splits option.splits)

text \<open>Claim C1, as the spec has it: when the revocation of the k-th certificate fails, no
  later certificate is attempted and the local transaction is rolled back. The program
  does not roll back at reason code 7 on a registration that owns certificates: the
  revocation of the first certificate fails by the panic of line 114, which leaves
  \<open>revokeByReg\<close> and its caller at once, and neither the rollback of line 232 nor the
  commit of line 235 is issued.\<close>

theorem reg_revoke_reason_7_neither_rollback_nor_commit:
  "revokeByReg_caller example_env 1 7 [] =
     (LeftByPanic (PanicMessage ''Invalid reason code: 7''), [DbSelectByRegistration 1])"
proof -
  have "show_int 7 = ''7''" by code_simp
  then show ?thesis
    by (simp add: revokeByReg_caller_def revokeByReg_def example_env_def example_certs_def
          revokeBySerial_def)
qed

text \<open>Claim C1, amended: when the store has enumerated the certificates of a registration,
  \<open>revokeByReg\<close> calls \<open>revokeBySerial\<close> on them one after the other, in the order of the
  enumeration, each call starting from the trace the one before left. There is a number
  \<open>k\<close> of calls that returned nil. Either \<open>k\<close> is the number of certificates, and the caller
  ends with the commit; or the call on certificate \<open>k\<close> did not return nil, nothing is done
  for any later certificate, the command does not end normally, and the caller adds to the
  trace of that call the rollback when the call returned an error, and nothing when the
  call panicked. The commit is issued exactly when every call returned nil.\<close>

theorem revokeByReg_in_order_until_first_failure:
  assumes "tx_Select e regID = Inr certs"
  shows "\<exists>k ts. k \<le> length certs \<and> length ts = Suc k \<and>
     ts ! 0 = t @ [DbSelectByRegistration regID] \<and>
     (\<forall>i<k. revokeBySerial e (Serial (certs ! i)) r (ts ! i) = (Returned None, ts ! Suc i)) \<and>
     (if k = length certs then
        snd (revokeByReg_caller e regID r t) = ts ! k @ [TxCommit]
      else
        fst (revokeBySerial e (Serial (certs ! k)) r (ts ! k)) \<noteq> Returned None \<and>
        fst (revokeByReg_caller e regID r t) \<noteq> Exit0 \<and>
        snd (revokeByReg_caller e regID r t) =
          snd (revokeBySerial e (Serial (certs ! k)) r (ts ! k))
            @ (case fst (revokeBySerial e (Serial (certs ! k)) r (ts ! k)) of
                 Returned err \<Rightarrow> [TxRollback]
               | Panicked p \<Rightarrow> [])) \<and>
     (TxCommit \<in> set (added t (snd (revokeByReg_caller e regID r t))) \<longleftrightarrow> k = length certs)"
proof -
  let ?t1 = "t @ [DbSelectByRegistration regID]"
  have reg: "revokeByReg e regID r t = revokeByReg_loop e r certs ?t1"
    using assms by (simp add: revokeByReg_def)
  obtain new where new: "snd (revokeByReg_loop e r certs ?t1) = ?t1 @ new"
      "TxCommit \<notin> set new" "TxRollback \<notin> set new"
    using revokeByReg_loop_adds [of e r certs ?t1] by blast
  obtain k ts where
    k: "k \<le> length certs" and len: "length ts = Suc k" and hd: "ts ! 0 = ?t1" and
    chain: "\<forall>i<k. revokeBySerial e (Serial (certs ! i)) r (ts ! i) = (Returned None, ts ! Suc i)" and
    fin: "if k = length certs then revokeByReg_loop e r certs ?t1 = (Returned None, ts ! k)
          else revokeByReg_loop e r certs ?t1 = revokeBySerial e (Serial (certs ! k)) r (ts ! k) \<and>
               fst (revokeBySerial e (Serial (certs ! k)) r (ts ! k)) \<noteq> Returned None"
    using revokeByReg_loop_chain [of certs ?t1 e r] by blast
  obtain out t' where res: "revokeByReg e regID r t = (out, t')"
    by (cases "revokeByReg e regID r t")
  have t': "t' = ?t1 @ new" using res reg new(1) by simp
  note caller = revokeByReg_caller_cases [OF res]
  have last: "if k = length certs then
        snd (revokeByReg_caller e regID r t) = ts ! k @ [TxCommit]
      else
        fst (revokeBySerial e (Serial (certs ! k)) r (ts ! k)) \<noteq> Returned None \<and>
        fst (revokeByReg_caller e regID r t) \<noteq> Exit0 \<and>
        snd (revokeByReg_caller e regID r t) =
          snd (revokeBySerial e (Serial (certs ! k)) r (ts ! k))
            @ (case fst (revokeBySerial e (Serial (certs ! k)) r (ts ! k)) of
                 Returned err \<Rightarrow> [TxRollback]
               | Panicked p \<Rightarrow> [])"
  proof (cases "k = length certs")
    case True
    then have "out = Returned None" "t' = ts ! k" using fin res reg by simp_all
    then show ?thesis using True caller(1) by simp
  next
    case False
    then have call: "revokeBySerial e (Serial (certs ! k)) r (ts ! k) = (out, t')"
      and ne: "out \<noteq> Returned None"
      using fin res reg by auto
    have "snd (revokeByReg_caller e regID r t) =
            t' @ (case out of Returned err \<Rightarrow> [TxRollback] | Panicked p \<Rightarrow> [])"
      using caller(1) ne by (cases out) (auto split: option.splits)
    then show ?thesis using False call ne caller(2) by simp
  qed
  have commit: "TxCommit \<in> set (added t (snd (revokeByReg_caller e regID r t))) \<longleftrightarrow> k = length certs"
  proof (cases "k = length certs")
    case True
    then have "out = Returned None" using fin res reg by simp
    then show ?thesis using True caller(1) t' by simp
  next
    case False
    then have "out \<noteq> Returned None" using fin res reg by auto
    then have "snd (revokeByReg_caller e regID r t) =
            t' @ (case out of Returned err \<Rightarrow> [TxRollback] | Panicked p \<Rightarrow> [])"
      using caller(1) by (cases out) (auto split: option.splits)
    then show ?thesis using False t' new(2) by (cases out) simp_all
  qed
  show ?thesis
    by (rule exI [of _ k], rule exI [of _ ts]) (use k len hd chain last commit in blast)
qed

lemma example_reg_revoke_partial:
  "revokeByReg_caller example_env 1 1 [] =
     (Failed (''Couldn'' @ [CHR 0x27] @ ''t revoke certificate'') (OtherError ''refused''),
      [DbSelectByRegistration 1,
       DbSelectCertificate ''0a'', RaRevoke (example_x509 10) 1 ''admin'' None,
       LogInfo (''Revoked certificate 0a with reason '' @ [CHR 0x27] @ ''keyCompromise''
                  @ [CHR 0x27]),
       DbSelectCertificate ''0b'',
       RaRevoke (example_x509 11) 1 ''admin'' (Some (OtherError ''refused'')),
       TxRollback])"
  by (simp add: revokeByReg_caller_def revokeByReg_def example_env_def example_certs_def
        revokeBySerial_def example_x509_def sa_Rollback_def revoked_message_def map_index_def
        example_table_def Let_def)

lemma example_reg_revoke_complete:
  "revokeByReg_caller example_env 3 1 [] =
     (Exit0,
      [DbSelectByRegistration 3,
       DbSelectCertificate ''0a'', RaRevoke (example_x509 10) 1 ''admin'' None,
       LogInfo (''Revoked certificate 0a with reason '' @ [CHR 0x27] @ ''keyCompromise''
                  @ [CHR 0x27]),
       DbSelectCertificate ''0c'', RaRevoke (example_x509 12) 1 ''admin'' None,
       LogInfo (''Revoked certificate 0c with reason '' @ [CHR 0x27] @ ''keyCompromise''
                  @ [CHR 0x27]),
       TxCommit])"
  by (simp add: revokeByReg_caller_def revokeByReg_def example_env_def example_certs_def
        revokeBySerial_def example_x509_def commit_def FailOnError_def revoked_message_def
        map_index_def example_table_def Let_def)

theorem revokeByReg_in_order_until_first_failure_witness:
  "tx_Select example_env 1 = Inr example_certs \<and>
   (\<exists>k ts. k \<le> length example_certs \<and> length ts = Suc k \<and>
     ts ! 0 = [] @ [DbSelectByRegistration 1] \<and>
     (\<forall>i<k. revokeBySerial example_env (Serial (example_certs ! i)) 1 (ts ! i)
        = (Returned None, ts ! Suc i)) \<and>
     (if k = length example_certs then
        snd (revokeByReg_caller example_env 1 1 []) = ts ! k @ [TxCommit]
      else
        fst (revokeBySerial example_env (Serial (example_certs ! k)) 1 (ts ! k))
          \<noteq> Returned None \<and>
        fst (revokeByReg_caller example_env 1 1 []) \<noteq> Exit0 \<and>
        snd (revokeByReg_caller example_env 1 1 []) =
          snd (revokeBySerial example_env (Serial (example_certs ! k)) 1 (ts ! k))
            @ (case fst (revokeBySerial example_env (Serial (example_certs ! k)) 1 (ts ! k)) of
                 Returned err \<Rightarrow> [TxRollback]
               | Panicked p \<Rightarrow> [])) \<and>
     (TxCommit \<in> set (added [] (snd (revokeByReg_caller example_env 1 1 [])))
        \<longleftrightarrow> k = length example_certs)) \<and>
   revokeByReg_caller example_env 1 1 [] =
     (Failed (''Couldn'' @ [CHR 0x27] @ ''t revoke certificate'') (OtherError ''refused''),
      [DbSelectByRegistration 1,
       DbSelectCertificate ''0a'', RaRevoke (example_x509 10) 1 ''admin'' None,
       LogInfo (''Revoked certificate 0a with reason '' @ [CHR 0x27] @ ''keyCompromise''
                  @ [CHR 0x27]),
       DbSelectCertificate ''0b'',
       RaRevoke (example_x509 11) 1 ''admin'' (Some (OtherError ''refused'')),
       TxRollback]) \<and>
   revokeByReg_caller example_env 3 1 [] =
     (Exit0,
      [DbSelectByRegistration 3,
       DbSelectCertificate ''0a'', RaRevoke (example_x509 10) 1 ''admin'' None,
       LogInfo (''Revoked certificate 0a with reason '' @ [CHR 0x27] @ ''keyCompromise''
                  @ [CHR 0x27]),
       DbSelectCertificate ''0c'', RaRevoke (example_x509 12) 1 ''admin'' None,
       LogInfo (''Revoked certificate 0c with reason '' @ [CHR 0x27] @ ''keyCompromise''
                  @ [CHR 0x27]),
       TxCommit])"
proof -
  have s: "tx_Select example_env 1 = Inr example_certs" by (simp add: example_env_def)
  show ?thesis
    using revokeByReg_in_order_until_first_failure [OF s, of "[]" 1] s
      example_reg_revoke_partial example_reg_revoke_complete
    by blast
qed

lemma revokeBySerial_success_revocation:
  assumes "revokeBySerial e (Serial c) r t = (Returned None, t')"
  shows "map Some (remote_revocations t') =
           map Some (remote_revocations t) @ [expected_revocation e r c]"
  using assms
  by (auto simp: revokeBySerial_def expected_revocation_def Let_def remote_revocations_append
        split: sum.splits option.splits if_splits)

lemma revokeBySerial_error_revocation:
  assumes "revokeBySerial e s r t = (Returned (Some err), t')"
  shows "remote_revocations t' = remote_revocations t"
  using assms
  by (auto simp: revokeBySerial_def Let_def remote_revocations_append
        split: sum.splits option.splits if_splits)

lemma chain_revocations:
  assumes "k \<le> length certs"
    and "\<forall>i<k. revokeBySerial e (Serial (certs ! i)) r (ts ! i) = (Returned None, ts ! Suc i)"
  shows "map Some (remote_revocations (ts ! k)) =
           map Some (remote_revocations (ts ! 0)) @ map (expected_revocation e r) (take k certs)"
  using assms
proof (induction k)
  case 0
  show ?case by simp
next
  case (Suc k)
  have step: "revokeBySerial e (Serial (certs ! k)) r (ts ! k) = (Returned None, ts ! Suc k)"
    using Suc.prems(2) by simp
  have prev: "map Some (remote_revocations (ts ! k)) =
           map Some (remote_revocations (ts ! 0)) @ map (expected_revocation e r) (take k certs)"
    using Suc by simp
  have "take (Suc k) certs = take k certs @ [certs ! k]"
    using Suc.prems(1) by (simp add: take_Suc_conv_app_nth)
  then show ?case
    using revokeBySerial_success_revocation [OF step] prev by simp
qed

lemma revokeByReg_loop_follows_chain:
  assumes "k \<le> length certs"
    and "\<forall>i<k. revokeBySerial e (Serial (certs ! i)) r (ts ! i) = (Returned None, ts ! Suc i)"
  shows "revokeByReg_loop e r certs (ts ! 0) = revokeByReg_loop e r (drop k certs) (ts ! k)"
  using assms
proof (induction k)
  case 0
  show ?case by simp
next
  case (Suc k)
  have prev: "revokeByReg_loop e r certs (ts ! 0) = revokeByReg_loop e r (drop k certs) (ts ! k)"
    using Suc by simp
  have step: "revokeBySerial e (Serial (certs ! k)) r (ts ! k) = (Returned None, ts ! Suc k)"
    using Suc.prems(2) by simp
  have "drop k certs = certs ! k # drop (Suc k) certs"
    using Suc.prems(1) by (simp add: Cons_nth_drop_Suc)
  then show ?case using prev step by simp
qed

text \<open>Claim C2: when the calls of \<open>revokeBySerial\<close> on the first \<open>k\<close> certificates of the
  enumeration returned nil and the call on the next one returns an error, the caller adds
  the rollback to the trace of that call and nothing else, the rollback leaves the
  revocations the RA holds as they were when the failing call returned, and these are the
  ones held before the command, followed by one for each of the first \<open>k\<close> certificates, in
  order: its decoded certificate, the reason code and the administrator.\<close>

theorem partial_failure_keeps_remote_revocations:
  assumes "tx_Select e regID = Inr certs"
    and "k < length certs" and "length ts = Suc k"
    and "ts ! 0 = t @ [DbSelectByRegistration regID]"
    and "\<forall>i<k. revokeBySerial e (Serial (certs ! i)) r (ts ! i) = (Returned None, ts ! Suc i)"
    and "revokeBySerial e (Serial (certs ! k)) r (ts ! k) = (Returned (Some err), t')"
  shows "snd (revokeByReg_caller e regID r t) = t' @ [TxRollback] \<and>
         remote_revocations (snd (revokeByReg_caller e regID r t)) = remote_revocations t' \<and>
         map Some (remote_revocations (snd (revokeByReg_caller e regID r t))) =
           map Some (remote_revocations t) @ map (expected_revocation e r) (take k certs)"
proof -
  have k: "k \<le> length certs" using assms(2) by simp
  have "drop k certs = certs ! k # drop (Suc k) certs"
    using assms(2) by (simp add: Cons_nth_drop_Suc)
  then have "revokeByReg_loop e r (drop k certs) (ts ! k) = (Returned (Some err), t')"
    using assms(6) by simp
  then have "revokeByReg_loop e r certs (ts ! 0) = (Returned (Some err), t')"
    using revokeByReg_loop_follows_chain [OF k assms(5)] by simp
  then have reg: "revokeByReg e regID r t = (Returned (Some err), t')"
    using assms(1,4) by (simp add: revokeByReg_def)
  have trace: "snd (revokeByReg_caller e regID r t) = t' @ [TxRollback]"
    using revokeByReg_caller_cases(1) [OF reg] by simp
  have kept: "remote_revocations (t' @ [TxRollback]) = remote_revocations t'"
    by (simp add: remote_revocations_append)
  have "remote_revocations (ts ! 0) = remote_revocations t"
    using assms(4) by (simp add: remote_revocations_append)
  then have "map Some (remote_revocations t') =
           map Some (remote_revocations t) @ map (expected_revocation e r) (take k certs)"
    using chain_revocations [OF k assms(5)] revokeBySerial_error_revocation [OF assms(6)]
    by simp
  then show ?thesis using trace kept by simp
qed

theorem partial_failure_keeps_remote_revocations_witness:
  "tx_Select example_env 1 = Inr example_certs \<and> (1::nat) < length example_certs \<and>
   revokeBySerial example_env (Serial (example_certs ! 0)) 1 [DbSelectByRegistration 1] =
     (Returned None,
      [DbSelectByRegistration 1, DbSelectCertificate ''0a'',
       RaRevoke (example_x509 10) 1 ''admin'' None,
       LogInfo (''Revoked certificate 0a with reason '' @ [CHR 0x27] @ ''keyCompromise''
                  @ [CHR 0x27])]) \<and>
   revokeBySerial example_env (Serial (example_certs ! 1)) 1
      [DbSelectByRegistration 1, DbSelectCertificate ''0a'',
       RaRevoke (example_x509 10) 1 ''admin'' None,
       LogInfo (''Revoked certificate 0a with reason '' @ [CHR 0x27] @ ''keyCompromise''
                  @ [CHR 0x27])] =
     (Returned (Some (OtherError ''refused'')),
      [DbSelectByRegistration 1, DbSelectCertificate ''0a'',
       RaRevoke (example_x509 10) 1 ''admin'' None,
       LogInfo (''Revoked certificate 0a with reason '' @ [CHR 0x27] @ ''keyCompromise''
                  @ [CHR 0x27]),
       DbSelectCertificate ''0b'',
       RaRevoke (example_x509 11) 1 ''admin'' (Some (OtherError ''refused''))]) \<and>
   snd (revokeByReg_caller example_env 1 1 []) =
      [DbSelectByRegistration 1, DbSelectCertificate ''0a'',
       RaRevoke (example_x509 10) 1 ''admin'' None,
       LogInfo (''Revoked certificate 0a with reason '' @ [CHR 0x27] @ ''keyCompromise''
                  @ [CHR 0x27]),
       DbSelectCertificate ''0b'',
       RaRevoke (example_x509 11) 1 ''admin'' (Some (OtherError ''refused'')),
       TxRollback] \<and>
   remote_revocations (snd (revokeByReg_caller example_env 1 1 [])) =
     [(example_x509 10, 1, ''admin'')] \<and>
   map (expected_revocation example_env 1) (take 1 example_certs) =
     [Some (example_x509 10, 1, ''admin'')]"
proof -
  let ?t0 = "[DbSelectByRegistration 1]"
  let ?t1 = "[DbSelectByRegistration 1, DbSelectCertificate ''0a'',
       RaRevoke (example_x509 10) 1 ''admin'' None,
       LogInfo (''Revoked certificate 0a with reason '' @ [CHR 0x27] @ ''keyCompromise''
                  @ [CHR 0x27])]"
  let ?t2 = "?t1 @ [DbSelectCertificate ''0b'',
       RaRevoke (example_x509 11) 1 ''admin'' (Some (OtherError ''refused''))]"
  have s: "tx_Select example_env 1 = Inr example_certs" by (simp add: example_env_def)
  have l: "(1::nat) < length example_certs" by (simp add: example_certs_def)
  have n: "length [?t0, ?t1] = Suc 1" by simp
  have h: "[?t0, ?t1] ! 0 = [] @ [DbSelectByRegistration 1]" by simp
  have c0: "revokeBySerial example_env (Serial (example_certs ! 0)) 1 ?t0 = (Returned None, ?t1)"
    by (simp add: example_env_def example_certs_def revokeBySerial_def example_x509_def
          revoked_message_def map_index_def example_table_def Let_def)
  have c: "\<forall>i<1. revokeBySerial example_env (Serial (example_certs ! i)) 1 ([?t0, ?t1] ! i)
             = (Returned None, [?t0, ?t1] ! Suc i)"
    using c0 by simp
  have c1: "revokeBySerial example_env (Serial (example_certs ! 1)) 1 ?t1
              = (Returned (Some (OtherError ''refused'')), ?t2)"
    by (simp add: example_env_def example_certs_def revokeBySerial_def example_x509_def Let_def)
  have f: "revokeBySerial example_env (Serial (example_certs ! 1)) 1 ([?t0, ?t1] ! 1)
             = (Returned (Some (OtherError ''refused'')), ?t2)"
    using c1 by simp
  have x: "map (expected_revocation example_env 1) (take 1 example_certs) =
     [Some (example_x509 10, 1, ''admin'')]"
    by (simp add: expected_revocation_def example_env_def example_certs_def)
  show ?thesis
    using partial_failure_keeps_remote_revocations [OF s l n h c f] s l c0 c1 x
    by simp
qed

end
